theory Spec2Isabelle
  imports Main
begin

section \<open>Item.h: the catalogue items\<close>

text \<open>
  The class \<open>Item\<close> has the fields \<open>name\<close>, \<open>description\<close> and \<open>id\<close>; \<open>Book\<close>, \<open>Magazine\<close>
  and \<open>Movie\<close> derive from it and add their own fields. A value of the datatype below is
  one object together with its dynamic type: the constructor \<open>Item\<close> is an object whose
  dynamic type is the base class itself (such as the \<open>dummyItem\<close> of \<open>main.cpp\<close>).
  The identity is a C++ \<open>int\<close>; the inventory never computes with it (it is only copied,
  compared and printed), so it is modelled as an \<open>int\<close>.
\<close>

datatype Item =
    Item string string int
  | Book string string int string string string
  | Magazine string string int string string
  | Movie string string int string string "string list"

fun getID :: "Item \<Rightarrow> int" where
  "getID (Item name description ident) = ident"
| "getID (Book name description ident title author copyrightDate) = ident"
| "getID (Magazine name description ident edition title) = ident"
| "getID (Movie name description ident title director mainActors) = ident"

fun getName :: "Item \<Rightarrow> string" where
  "getName (Item name description ident) = name"
| "getName (Book name description ident title author copyrightDate) = name"
| "getName (Magazine name description ident edition title) = name"
| "getName (Movie name description ident title director mainActors) = name"

fun getDescription :: "Item \<Rightarrow> string" where
  "getDescription (Item name description ident) = description"
| "getDescription (Book name description ident title author copyrightDate) = description"
| "getDescription (Magazine name description ident edition title) = description"
| "getDescription (Movie name description ident title director mainActors) = description"

text \<open>
  \<open>Item\<close> declares no copy constructor, so the implicit one is used: called on a
  \<open>const Item&\<close> it builds an object of dynamic type \<open>Item\<close> from the three base fields of
  its argument, whatever the argument's dynamic type is.
\<close>

definition Item_copy :: "Item \<Rightarrow> Item" where
  "Item_copy itm = Item (getName itm) (getDescription itm) (getID itm)"

subsection \<open>\<open>std::to_string\<close> on an \<open>int\<close>\<close>

definition digit_char :: "nat \<Rightarrow> char" where
  "digit_char d = ''0123456789'' ! d"

function nat_to_string :: "nat \<Rightarrow> string" where
  "nat_to_string n =
     (if n < 10 then [digit_char n]
      else nat_to_string (n div 10) @ [digit_char (n mod 10)])"
  by pat_completeness auto
termination
  by (relation "measure (\<lambda>n. n)") auto

declare nat_to_string.simps [simp del]

definition to_string :: "int \<Rightarrow> string" where
  "to_string n =
     (if n < 0 then CHR ''-'' # nat_to_string (nat (- n)) else nat_to_string (nat n))"

subsection \<open>Printing\<close>

definition endl :: string where
  "endl = [CHR 0x0A]"

text \<open>
  \<open>print\<close> is not virtual. \<open>Item_print\<close> is \<open>Item::print\<close>, which reads the base fields
  only; \<open>operator<<(ostream&, const Item&)\<close> calls it, and this is the operator that
  \<open>operator<<(ostream&, const Inventory&)\<close> and \<open>printCheckedOutItems\<close> apply to a stored
  item (\<open>*inventory.shelves[i][j]\<close>, \<open>*info.item\<close>).
\<close>

definition Item_print :: "Item \<Rightarrow> string" where
  "Item_print itm =
     ''ID: '' @ to_string (getID itm) @ endl @
     ''Name: '' @ getName itm @ endl @
     ''Description: '' @ getDescription itm @ endl"

text \<open>
  \<open>own_print\<close> is the \<open>print\<close> of the object's own class (\<open>Book::print\<close> for a \<open>Book\<close>, and
  so on): what \<open>cout << book\<close> writes for a variable declared as a \<open>Book\<close>.
\<close>

fun own_print :: "Item \<Rightarrow> string" where
  "own_print (Item name description ident) = Item_print (Item name description ident)"
| "own_print (Book name description ident title author copyrightDate) =
     Item_print (Book name description ident title author copyrightDate) @
     ''Title: '' @ title @ endl @
     ''Author: '' @ author @ endl @
     ''Copyright Date: '' @ copyrightDate @ endl"
| "own_print (Magazine name description ident edition title) =
     Item_print (Magazine name description ident edition title) @
     ''Edition: '' @ edition @ endl @
     ''Title: '' @ title @ endl"
| "own_print (Movie name description ident title director mainActors) =
     Item_print (Movie name description ident title director mainActors) @
     ''Title: '' @ title @ endl @
     ''Director: '' @ director @ endl @
     ''Main Actors: '' @ endl @
     concat (map (\<lambda>actor. actor @ endl) mainActors)"

section \<open>Position.h\<close>

datatype Position = Position int int

fun getRow :: "Position \<Rightarrow> int" where
  "getRow (Position row col) = row"

fun getCol :: "Position \<Rightarrow> int" where
  "getCol (Position row col) = col"

definition isValid :: "Position \<Rightarrow> bool" where
  "isValid pos = (getRow pos \<ge> 0 \<and> getRow pos < 3 \<and> getCol pos \<ge> 0 \<and> getCol pos < 15)"

section \<open>Inventory.h: the state\<close>

text \<open>
  A \<open>unique_ptr<Item>\<close> is either null or owns one item: an \<open>Item option\<close>.
\<close>

record CheckoutInfo =
  checkedOutBy :: string
  dueDate :: string
  originalPosition :: Position
  item :: "Item option"

text \<open>
  \<open>shelves\<close> is the array \<open>unique_ptr<Item> shelves[3][15]\<close>, read and written at
  \<open>shelves[row][col]\<close>; \<open>checkedOutItems\<close> is the \<open>std::map\<close> from identity strings to
  checkout records. The array has the slots with \<open>0 \<le> row < 3\<close> and \<open>0 \<le> col < 15\<close>
  only. The operations below reach a slot after \<open>isValid\<close>, inside the bounds of the two
  loops of \<open>checkoutItem\<close>, or at the \<open>originalPosition\<close> of a record, which
  \<open>checkoutItem\<close> takes from its loop indices.
\<close>

record Inventory =
  shelves :: "int \<Rightarrow> int \<Rightarrow> Item option"
  checkedOutItems :: "string \<rightharpoonup> CheckoutInfo"

text \<open>
  The exceptions thrown by the inventory, named by their cause: \<open>InvalidPosition\<close> is the
  \<open>out_of_range\<close> of a position outside the grid, \<open>SlotOccupied\<close> the \<open>runtime_error\<close>
  "Compartment is not empty", \<open>EmptySlot\<close> the \<open>runtime_error\<close> "Cannot swap: one or both
  compartments are empty", \<open>ItemNotFound\<close> the \<open>runtime_error\<close> "Item with ID ... not
  found" and \<open>NotCheckedOut\<close> the \<open>runtime_error\<close> "Item is not checked out".
  A member function returns its result, or the exception it threw, together with the
  state of the inventory at that moment.
\<close>

datatype error = InvalidPosition | SlotOccupied | EmptySlot | ItemNotFound | NotCheckedOut

definition slot :: "(int \<Rightarrow> int \<Rightarrow> Item option) \<Rightarrow> Position \<Rightarrow> Item option" where
  "slot sh pos = sh (getRow pos) (getCol pos)"

definition setSlot ::
  "(int \<Rightarrow> int \<Rightarrow> Item option) \<Rightarrow> Position \<Rightarrow> Item option \<Rightarrow> (int \<Rightarrow> int \<Rightarrow> Item option)" where
  "setSlot sh pos p = sh (getRow pos := (sh (getRow pos)) (getCol pos := p))"

section \<open>Inventory.cpp: the operations\<close>

definition newInventory :: Inventory where
  "newInventory = \<lparr>shelves = (\<lambda>i j. None), checkedOutItems = Map.empty\<rparr>"

definition getStringId :: "int \<Rightarrow> string" where
  "getStringId ident = to_string ident"

definition isCompartmentEmpty :: "Position \<Rightarrow> Inventory \<Rightarrow> (error + bool) \<times> Inventory" where
  "isCompartmentEmpty pos s =
     (if \<not> isValid pos then (Inl InvalidPosition, s)
      else (Inr (slot (shelves s) pos = None), s))"

definition isItemCheckedOut :: "string \<Rightarrow> Inventory \<Rightarrow> bool \<times> Inventory" where
  "isItemCheckedOut itemId s = (checkedOutItems s itemId \<noteq> None, s)"

text \<open>
  \<open>make_unique<Item>(item)\<close> allocates an object of class \<open>Item\<close> and initialises it with
  \<open>Item\<close>'s copy constructor.
\<close>

definition addItem :: "Position \<Rightarrow> Item \<Rightarrow> Inventory \<Rightarrow> (error + unit) \<times> Inventory" where
  "addItem position itm s =
     (if \<not> isValid position then (Inl InvalidPosition, s)
      else case isCompartmentEmpty position s of
             (Inl e, s1) \<Rightarrow> (Inl e, s1)
           | (Inr isEmpty, s1) \<Rightarrow>
               if \<not> isEmpty then (Inl SlotOccupied, s1)
               else (Inr (), s1\<lparr>shelves := setSlot (shelves s1) position (Some (Item_copy itm))\<rparr>))"

text \<open>
  \<open>std::map::emplace\<close> inserts only when the key is not yet in the map; otherwise the map
  keeps its old entry and the value built for the call is destroyed.
\<close>

definition emplace :: "'k \<Rightarrow> 'v \<Rightarrow> ('k \<rightharpoonup> 'v) \<Rightarrow> ('k \<rightharpoonup> 'v)" where
  "emplace k v m = (case m k of None \<Rightarrow> m(k \<mapsto> v) | Some old \<Rightarrow> m)"

text \<open>
  The body of the \<open>if\<close> inside the two loops of \<open>checkoutItem\<close>, for the slot \<open>(i, j)\<close>
  holding \<open>x\<close>. The due date is written by the C library from the clock
  (\<open>time\<close>, \<open>localtime\<close>, \<open>tm_mday += 30\<close>, \<open>mktime\<close>, \<open>put_time\<close>); the resulting string is the
  parameter \<open>due\<close>, and \<open>generateDueDate\<close> below is that computation. Building the \<open>CheckoutInfo\<close> argument moves the pointer out of the
  slot, which is null afterwards whether or not \<open>emplace\<close> inserts. The result is the
  item \<open>itemPtr\<close> pointed to when it was taken.
\<close>

definition checkoutAt ::
  "string \<Rightarrow> string \<Rightarrow> string \<Rightarrow> Inventory \<Rightarrow> int \<Rightarrow> int \<Rightarrow> Item \<Rightarrow> Item \<times> Inventory" where
  "checkoutAt due itemId checkOutBy s i j x =
     (let pos = Position i j;
          itemPtr = x;
          info = \<lparr>checkedOutBy = checkOutBy, dueDate = due, originalPosition = pos,
                  item = shelves s i j\<rparr>
      in (itemPtr,
          s\<lparr>shelves := setSlot (shelves s) pos None,
            checkedOutItems := emplace itemId info (checkedOutItems s)\<rparr>))"

text \<open>
  The inner loop \<open>for (j; j < 15; j++)\<close> on shelf \<open>i\<close> and the outer loop
  \<open>for (i; i < 3; i++)\<close>: \<open>Some\<close> is the \<open>return\<close> inside the loops, \<open>None\<close> is a loop run
  to its end.
\<close>

function checkoutCompartments ::
  "string \<Rightarrow> string \<Rightarrow> string \<Rightarrow> Inventory \<Rightarrow> int \<Rightarrow> int \<Rightarrow> (Item \<times> Inventory) option" where
  "checkoutCompartments due itemId checkOutBy s i j =
     (if j < 15 then
        (case shelves s i j of
           Some x \<Rightarrow>
             if getStringId (getID x) = itemId
             then Some (checkoutAt due itemId checkOutBy s i j x)
             else checkoutCompartments due itemId checkOutBy s i (j + 1)
         | None \<Rightarrow> checkoutCompartments due itemId checkOutBy s i (j + 1))
      else None)"
  by pat_completeness auto
termination
  by (relation "measure (\<lambda>(due, itemId, checkOutBy, s, i, j). nat (15 - j))") auto

declare checkoutCompartments.simps [simp del]

function checkoutShelves ::
  "string \<Rightarrow> string \<Rightarrow> string \<Rightarrow> Inventory \<Rightarrow> int \<Rightarrow> (Item \<times> Inventory) option" where
  "checkoutShelves due itemId checkOutBy s i =
     (if i < 3 then
        (case checkoutCompartments due itemId checkOutBy s i 0 of
           Some r \<Rightarrow> Some r
         | None \<Rightarrow> checkoutShelves due itemId checkOutBy s (i + 1))
      else None)"
  by pat_completeness auto
termination
  by (relation "measure (\<lambda>(due, itemId, checkOutBy, s, i). nat (3 - i))") auto

declare checkoutShelves.simps [simp del]

definition checkoutItem ::
  "string \<Rightarrow> string \<Rightarrow> string \<Rightarrow> Inventory \<Rightarrow> (error + Item) \<times> Inventory" where
  "checkoutItem due itemId checkOutBy s =
     (case checkoutShelves due itemId checkOutBy s 0 of
        Some (itemPtr, s1) \<Rightarrow> (Inr itemPtr, s1)
      | None \<Rightarrow> (Inl ItemNotFound, s))"

text \<open>
  In \<open>checkinItem\<close> the move assignment to the slot replaces whatever the slot owns: an
  item that is there is destroyed. No test of the slot precedes it.
\<close>

definition checkinItem :: "Item \<Rightarrow> Inventory \<Rightarrow> (error + unit) \<times> Inventory" where
  "checkinItem itm s =
     (let itemId = getStringId (getID itm)
      in case checkedOutItems s itemId of
           None \<Rightarrow> (Inl NotCheckedOut, s)
         | Some info \<Rightarrow>
             (let pos = originalPosition info
              in (Inr (),
                  s\<lparr>shelves := setSlot (shelves s) pos (item info),
                    checkedOutItems := (checkedOutItems s) (itemId := None)\<rparr>)))"

text \<open>
  \<open>swap\<close> on two \<open>unique_ptr\<close>s exchanges the two pointers; when both arguments are the
  same slot it leaves the slot as it is.
\<close>

definition swapItems :: "Position \<Rightarrow> Position \<Rightarrow> Inventory \<Rightarrow> (error + unit) \<times> Inventory" where
  "swapItems pos1 pos2 s =
     (if \<not> isValid pos1 \<or> \<not> isValid pos2 then (Inl InvalidPosition, s)
      else case isCompartmentEmpty pos1 s of
             (Inl e, s1) \<Rightarrow> (Inl e, s1)
           | (Inr empty1, s1) \<Rightarrow>
               if empty1 then (Inl EmptySlot, s1)
               else (case isCompartmentEmpty pos2 s1 of
                       (Inl e, s2) \<Rightarrow> (Inl e, s2)
                     | (Inr empty2, s2) \<Rightarrow>
                         if empty2 then (Inl EmptySlot, s2)
                         else (let a = slot (shelves s2) pos1;
                                   b = slot (shelves s2) pos2
                               in (Inr (),
                                   s2\<lparr>shelves := setSlot (setSlot (shelves s2) pos1 b) pos2 a\<rparr>))))"

section \<open>Inventory.cpp, lines 155 to 161: the due date\<close>

text \<open>
  \<^verbatim>\<open>
  const auto now = time(nullptr);
  auto tm = *localtime(&now);
  tm.tm_mday += 30; // Add 30 days
  mktime(&tm);
  stringstream dueDate;
  dueDate << put_time(&tm, "%Y-%m-%d");
  \<close>
  \<open>localtime\<close>, \<open>mktime\<close> and \<open>put_time\<close> belong to the C and C++ libraries, not to this
  repository. They are modelled from the C library's documentation (ISO C on \<open>struct tm\<close>
  and \<open>mktime\<close>, POSIX on \<open>tm_isdst\<close>); the clock and the time zone are parameters.

  \<open>tm\<close> is \<open>struct tm\<close> without \<open>tm_wday\<close> and \<open>tm_yday\<close>, which \<open>mktime\<close> ignores on
  input and \<open>%Y-%m-%d\<close> does not print: \<open>tm_mon\<close> counts from 0, \<open>tm_year\<close> from 1900, and
  \<open>tm_isdst\<close> is positive when daylight saving time is in effect, zero when it is not,
  negative when unknown. The broken-down local time that \<open>localtime(&now)\<close> returns is the
  parameter \<open>now\<close> of \<open>generateDueDate\<close>.

  A \<open>zone\<close> is what the time zone database gives \<open>mktime\<close>: whether daylight saving time is
  in effect at a normalised wall-clock reading, and how many seconds it adds.
\<close>

record tm =
  tm_sec :: int
  tm_min :: int
  tm_hour :: int
  tm_mday :: int
  tm_mon :: int
  tm_year :: int
  tm_isdst :: int

record zone =
  zone_dst :: "tm \<Rightarrow> bool"
  zone_save :: int

text \<open>The Gregorian calendar; months count from 0 as in \<open>tm_mon\<close>.\<close>

definition isLeapYear :: "int \<Rightarrow> bool" where
  "isLeapYear y =
     (if y mod 400 = 0 then True else if y mod 100 = 0 then False else y mod 4 = 0)"

definition daysInMonth :: "int \<Rightarrow> int \<Rightarrow> int" where
  "daysInMonth y m =
     (if m = 1 then (if isLeapYear y then 29 else 28)
      else if m = 3 \<or> m = 5 \<or> m = 8 \<or> m = 10 then 30
      else 31)"

definition nextMonth :: "int \<Rightarrow> int \<Rightarrow> int \<times> int" where
  "nextMonth y m = (if m < 11 then (y, m + 1) else (y + 1, 0))"

definition prevMonth :: "int \<Rightarrow> int \<Rightarrow> int \<times> int" where
  "prevMonth y m = (if m > 0 then (y, m - 1) else (y - 1, 11))"

text \<open>
  \<open>mktime\<close> accepts fields outside their ranges and forces them into range so that they
  denote the same calendar time; the day of the month is settled last, once month and
  year are known. \<open>normDay\<close> carries a day number outside \<open>1 .. daysInMonth\<close> into the
  neighbouring months; \<open>normalise\<close> first carries seconds, minutes and hours into days
  and months into years.
\<close>

function normDay :: "int \<Rightarrow> int \<Rightarrow> int \<Rightarrow> int \<times> int \<times> int" where
  "normDay y m d =
     (if d < 1 then
        normDay (fst (prevMonth y m)) (snd (prevMonth y m))
          (d + daysInMonth (fst (prevMonth y m)) (snd (prevMonth y m)))
      else if d > daysInMonth y m then
        normDay (fst (nextMonth y m)) (snd (nextMonth y m)) (d - daysInMonth y m)
      else (y, m, d))"
  by pat_completeness auto
termination
  by (relation "measure (\<lambda>(y, m, d). if d < 1 then 32 + nat (1 - d) else nat d)")
    (auto simp: daysInMonth_def)

declare normDay.simps [simp del]

definition normalise :: "tm \<Rightarrow> tm" where
  "normalise t =
     (let secs = tm_hour t * 3600 + tm_min t * 60 + tm_sec t;
          rest = secs mod 86400;
          ymd = normDay (1900 + tm_year t + tm_mon t div 12) (tm_mon t mod 12)
                  (tm_mday t + secs div 86400)
      in \<lparr>tm_sec = rest mod 60, tm_min = (rest div 60) mod 60, tm_hour = rest div 3600,
          tm_mday = snd (snd ymd), tm_mon = fst (snd ymd), tm_year = fst ymd - 1900,
          tm_isdst = tm_isdst t\<rparr>)"

text \<open>
  With a non-negative \<open>tm_isdst\<close> the caller tells \<open>mktime\<close> whether the fields are a
  daylight-saving or a standard-time reading, and \<open>mktime\<close> presumes so. When the zone is
  in the other state at that time, the same instant is returned as the zone's own
  reading: an hour (\<open>zone_save\<close>) earlier for a daylight-saving reading of a standard-time
  date, an hour later in the opposite case. With a negative \<open>tm_isdst\<close> the fields are
  taken as the zone's own reading. The model returns the \<open>struct tm\<close> that \<open>mktime\<close>
  leaves behind; its \<open>time_t\<close> result is not used by the code.
\<close>

definition mktime :: "zone \<Rightarrow> tm \<Rightarrow> tm" where
  "mktime z t =
     (let n = normalise t
      in if tm_isdst t < 0 then n\<lparr>tm_isdst := (if zone_dst z n then 1 else 0)\<rparr>
         else if (tm_isdst t > 0) = zone_dst z n then n\<lparr>tm_isdst := (if zone_dst z n then 1 else 0)\<rparr>
         else if tm_isdst t > 0
           then (normalise (n\<lparr>tm_sec := tm_sec n - zone_save z\<rparr>))\<lparr>tm_isdst := 0\<rparr>
           else (normalise (n\<lparr>tm_sec := tm_sec n + zone_save z\<rparr>))\<lparr>tm_isdst := 1\<rparr>)"

text \<open>
  \<open>put_time\<close> with \<open>%Y-%m-%d\<close>: the year in decimal, the month (from 1) and the day of the
  month in two digits each.
\<close>

definition pad2 :: "int \<Rightarrow> string" where
  "pad2 n = (if n < 10 then CHR ''0'' # to_string n else to_string n)"

definition formatYmd :: "int \<times> int \<times> int \<Rightarrow> string" where
  "formatYmd date =
     to_string (fst date) @ ''-'' @ pad2 (fst (snd date) + 1) @ ''-'' @ pad2 (snd (snd date))"

definition put_time_Ymd :: "tm \<Rightarrow> string" where
  "put_time_Ymd t = formatYmd (1900 + tm_year t, tm_mon t, tm_mday t)"

definition generateDueDate :: "zone \<Rightarrow> tm \<Rightarrow> string" where
  "generateDueDate z now =
     (let t = now\<lparr>tm_mday := tm_mday now + 30\<rparr>;
          t1 = mktime z t
      in put_time_Ymd t1)"

text \<open>
  \<open>checkoutItem\<close> for a reading \<open>now\<close> of the clock in the zone \<open>z\<close>.
\<close>

definition checkoutItemAt ::
  "zone \<Rightarrow> tm \<Rightarrow> string \<Rightarrow> string \<Rightarrow> Inventory \<Rightarrow> (error + Item) \<times> Inventory" where
  "checkoutItemAt z now itemId checkOutBy s =
     checkoutItem (generateDueDate z now) itemId checkOutBy s"

text \<open>
  The other side of the comparison, following the words "the current date plus 30
  calendar days": \<open>nextDay\<close> is the day after a date \<open>(year, month from 0, day)\<close>, and
  \<open>calendarPlusDays n\<close> takes it \<open>n\<close> times.
\<close>

definition nextDay :: "int \<times> int \<times> int \<Rightarrow> int \<times> int \<times> int" where
  "nextDay date =
     (if snd (snd date) < daysInMonth (fst date) (fst (snd date))
      then (fst date, fst (snd date), snd (snd date) + 1)
      else (fst (nextMonth (fst date) (fst (snd date))),
            snd (nextMonth (fst date) (fst (snd date))), 1))"

definition calendarPlusDays :: "nat \<Rightarrow> int \<times> int \<times> int \<Rightarrow> int \<times> int \<times> int" where
  "calendarPlusDays n date = (nextDay ^^ n) date"

section \<open>Vocabulary for the statements\<close>

text \<open>
  The test of the \<open>if\<close> in \<open>checkoutItem\<close>: the slot \<open>(i, j)\<close> is occupied and the
  identity of its item, as a string, is \<open>itemId\<close>.
\<close>

definition matchesId :: "Inventory \<Rightarrow> string \<Rightarrow> int \<Rightarrow> int \<Rightarrow> bool" where
  "matchesId s itemId i j =
     (case shelves s i j of Some x \<Rightarrow> getStringId (getID x) = itemId | None \<Rightarrow> False)"

subsection \<open>Concrete runs\<close>

text \<open>
  Items and the states of three runs from a new inventory, used to evaluate the
  operations. Run \<open>ow\<close>: a book with identity 1 is added at \<open>(0, 0)\<close> and checked out, a
  magazine with identity 2 is added at \<open>(0, 0)\<close>, the book is checked in. Run \<open>dup\<close>
  continues \<open>ow2\<close>: a magazine that also has identity 1 is added at \<open>(0, 1)\<close>, and
  \<open>dup6\<close> adds a third item of identity 1. State \<open>sw1\<close> holds the book at \<open>(0, 0)\<close>
  and the magazine of identity 2 at \<open>(0, 1)\<close>.
\<close>

definition bookX :: Item where
  "bookX = Book ''Dune'' ''novel'' 1 ''Dune'' ''Herbert'' ''1965''"

definition magY :: Item where
  "magY = Magazine ''Wired'' ''monthly'' 2 ''May'' ''Chips''"

definition magDup :: Item where
  "magDup = Magazine ''Byte'' ''monthly'' 1 ''June'' ''Disks''"

definition standIn :: Item where
  "standIn = Item [] [] 1"

definition ow1 :: Inventory where
  "ow1 = snd (addItem (Position 0 0) bookX newInventory)"

definition ow2 :: Inventory where
  "ow2 = snd (checkoutItem ''2025-06-04'' ''1'' ''Alice'' ow1)"

definition ow3 :: Inventory where
  "ow3 = snd (addItem (Position 0 0) magY ow2)"

definition ow4 :: Inventory where
  "ow4 = snd (checkinItem standIn ow3)"

definition dup3 :: Inventory where
  "dup3 = snd (addItem (Position 0 1) magDup ow2)"

definition sw1 :: Inventory where
  "sw1 = snd (addItem (Position 0 1) magY ow1)"

definition bookInfo :: CheckoutInfo where
  "bookInfo = \<lparr>checkedOutBy = ''Alice'', dueDate = ''2025-06-04'',
             originalPosition = Position 0 0, item = Some (Item ''Dune'' ''novel'' 1)\<rparr>"

definition dup6 :: Inventory where
  "dup6 = snd (addItem (Position 1 0) standIn dup3)"

text \<open>
  A clock reading for the due date: 28 September 2025, 00:30, daylight saving time, in
  a zone that follows the rule of the European Union for 2025 (daylight saving time from
  30 March, 03:00, to 26 October, 03:00, one hour). Other years are not needed.
\<close>

definition cet2025 :: zone where
  "cet2025 =
     \<lparr>zone_dst = (\<lambda>t. tm_year t = 125 \<and>
         ((tm_mon t = 2 \<and> (tm_mday t > 30 \<or> (tm_mday t = 30 \<and> tm_hour t \<ge> 3))) \<or>
          (3 \<le> tm_mon t \<and> tm_mon t \<le> 8) \<or>
          (tm_mon t = 9 \<and> (tm_mday t < 26 \<or> (tm_mday t = 26 \<and> tm_hour t < 3))))),
      zone_save = 3600\<rparr>"

definition halfPastMidnight :: tm where
  "halfPastMidnight =
     \<lparr>tm_sec = 0, tm_min = 30, tm_hour = 0, tm_mday = 28, tm_mon = 8, tm_year = 125,
      tm_isdst = 1\<rparr>"

section \<open>The two loops of \<open>checkoutItem\<close>\<close>

text \<open>
  One turn of each loop, then what a whole loop returns: \<open>None\<close> when no slot from the
  starting index on passes the test, and the checkout at the first slot that passes it
  otherwise.
\<close>

lemma checkoutCompartments_step:
  "j < 15 \<Longrightarrow> \<not> matchesId s k i j \<Longrightarrow>
   checkoutCompartments d k b s i j = checkoutCompartments d k b s i (j + 1)"
  by (subst checkoutCompartments.simps) (simp add: matchesId_def split: option.splits)

lemma checkoutCompartments_hit:
  "j < 15 \<Longrightarrow> shelves s i j = Some x \<Longrightarrow> getStringId (getID x) = k \<Longrightarrow>
   checkoutCompartments d k b s i j = Some (checkoutAt d k b s i j x)"
  by (subst checkoutCompartments.simps) simp

lemma checkoutCompartments_end:
  "\<not> j < 15 \<Longrightarrow> checkoutCompartments d k b s i j = None"
  by (subst checkoutCompartments.simps) simp

lemma compartments_none:
  "(\<forall>j. j0 \<le> j \<and> j < 15 \<longrightarrow> \<not> matchesId s k i j) \<Longrightarrow> checkoutCompartments d k b s i j0 = None"
proof (induction "nat (15 - j0)" arbitrary: j0)
  case 0
  then show ?case by (simp add: checkoutCompartments_end)
next
  case (Suc n)
  then have lt: "j0 < 15" and n: "n = nat (15 - (j0 + 1))" by linarith+
  from Suc.prems lt have nm: "\<not> matchesId s k i j0" by simp
  from Suc.prems have "\<forall>j. j0 + 1 \<le> j \<and> j < 15 \<longrightarrow> \<not> matchesId s k i j" by simp
  from Suc.hyps(1) [OF n this] show ?case
    by (simp add: checkoutCompartments_step [OF lt nm])
qed

lemma compartments_first:
  "j0 \<le> j \<Longrightarrow> j < 15 \<Longrightarrow> shelves s i j = Some x \<Longrightarrow> getStringId (getID x) = k \<Longrightarrow>
   (\<forall>j'. j0 \<le> j' \<and> j' < j \<longrightarrow> \<not> matchesId s k i j') \<Longrightarrow>
   checkoutCompartments d k b s i j0 = Some (checkoutAt d k b s i j x)"
proof (induction "nat (j - j0)" arbitrary: j0)
  case 0
  then have "j0 = j" by simp
  with 0 show ?case by (simp add: checkoutCompartments_hit)
next
  case (Suc n)
  then have lt: "j0 < j" and n: "n = nat (j - (j0 + 1))" by linarith+
  from Suc.prems lt have nm: "\<not> matchesId s k i j0" by simp
  from lt Suc.prems have lt15: "j0 < 15" by simp
  from Suc.prems have rest: "\<forall>j'. j0 + 1 \<le> j' \<and> j' < j \<longrightarrow> \<not> matchesId s k i j'" by simp
  from lt have le: "j0 + 1 \<le> j" by simp
  from Suc.hyps(1) [OF n le Suc.prems(2,3,4) rest] show ?case
    by (simp add: checkoutCompartments_step [OF lt15 nm])
qed

lemma checkoutShelves_step:
  "i < 3 \<Longrightarrow> checkoutCompartments d k b s i 0 = None \<Longrightarrow>
   checkoutShelves d k b s i = checkoutShelves d k b s (i + 1)"
  by (subst checkoutShelves.simps) simp

lemma checkoutShelves_hit:
  "i < 3 \<Longrightarrow> checkoutCompartments d k b s i 0 = Some r \<Longrightarrow> checkoutShelves d k b s i = Some r"
  by (subst checkoutShelves.simps) simp

lemma checkoutShelves_end:
  "\<not> i < 3 \<Longrightarrow> checkoutShelves d k b s i = None"
  by (subst checkoutShelves.simps) simp

lemma shelves_none:
  "(\<forall>i j. i0 \<le> i \<and> i < 3 \<and> 0 \<le> j \<and> j < 15 \<longrightarrow> \<not> matchesId s k i j) \<Longrightarrow>
   checkoutShelves d k b s i0 = None"
proof (induction "nat (3 - i0)" arbitrary: i0)
  case 0
  then show ?case by (simp add: checkoutShelves_end)
next
  case (Suc n)
  then have lt: "i0 < 3" and n: "n = nat (3 - (i0 + 1))" by linarith+
  from Suc.prems lt have "\<forall>j. 0 \<le> j \<and> j < 15 \<longrightarrow> \<not> matchesId s k i0 j" by simp
  then have row: "checkoutCompartments d k b s i0 0 = None" by (rule compartments_none)
  from Suc.prems have "\<forall>i j. i0 + 1 \<le> i \<and> i < 3 \<and> 0 \<le> j \<and> j < 15 \<longrightarrow> \<not> matchesId s k i j"
    by simp
  from Suc.hyps(1) [OF n this] show ?case
    by (simp add: checkoutShelves_step [OF lt row])
qed

lemma shelves_first:
  "i0 \<le> i \<Longrightarrow> i < 3 \<Longrightarrow> 0 \<le> j \<Longrightarrow> j < 15 \<Longrightarrow> shelves s i j = Some x \<Longrightarrow>
   getStringId (getID x) = k \<Longrightarrow>
   (\<forall>i' j'. i0 \<le> i' \<and> i' < 3 \<and> 0 \<le> j' \<and> j' < 15 \<and> (i' < i \<or> (i' = i \<and> j' < j)) \<longrightarrow>
      \<not> matchesId s k i' j') \<Longrightarrow>
   checkoutShelves d k b s i0 = Some (checkoutAt d k b s i j x)"
proof (induction "nat (i - i0)" arbitrary: i0)
  case 0
  then have eq: "i0 = i" by simp
  from 0 eq have "\<forall>j'. 0 \<le> j' \<and> j' < j \<longrightarrow> \<not> matchesId s k i j'" by simp
  from compartments_first [OF "0.prems"(3,4,5,6) this]
  have "checkoutCompartments d k b s i 0 = Some (checkoutAt d k b s i j x)" .
  with "0.prems"(2) eq show ?case by (simp add: checkoutShelves_hit)
next
  case (Suc n)
  then have lt: "i0 < i" and n: "n = nat (i - (i0 + 1))" by linarith+
  from lt Suc.prems have lt3: "i0 < 3" by simp
  from Suc.prems lt lt3 have "\<forall>j. 0 \<le> j \<and> j < 15 \<longrightarrow> \<not> matchesId s k i0 j" by simp
  then have row: "checkoutCompartments d k b s i0 0 = None" by (rule compartments_none)
  from Suc.prems have rest:
    "\<forall>i' j'. i0 + 1 \<le> i' \<and> i' < 3 \<and> 0 \<le> j' \<and> j' < 15 \<and> (i' < i \<or> (i' = i \<and> j' < j)) \<longrightarrow>
       \<not> matchesId s k i' j'" by simp
  from lt have le: "i0 + 1 \<le> i" by simp
  from Suc.hyps(1) [OF n le Suc.prems(2,3,4,5,6) rest] show ?case
    by (simp add: checkoutShelves_step [OF lt3 row])
qed


lemma compartments_some:
  "j0 \<le> j \<Longrightarrow> j < 15 \<Longrightarrow> matchesId s k i j \<Longrightarrow>
   \<exists>j' x. j0 \<le> j' \<and> j' < 15 \<and> shelves s i j' = Some x \<and> getStringId (getID x) = k \<and>
     checkoutCompartments d k b s i j0 = Some (checkoutAt d k b s i j' x)"
proof (induction "nat (j - j0)" arbitrary: j0)
  case 0
  then have eq: "j0 = j" by simp
  from "0.prems"(3) obtain x where x: "shelves s i j = Some x" "getStringId (getID x) = k"
    by (auto simp: matchesId_def split: option.splits)
  from checkoutCompartments_hit [OF "0.prems"(2) x] eq "0.prems"(2) x show ?case by blast
next
  case (Suc n)
  then have lt: "j0 < j" and n: "n = nat (j - (j0 + 1))" by linarith+
  from lt Suc.prems have lt15: "j0 < 15" by simp
  show ?case
  proof (cases "matchesId s k i j0")
    case True
    then obtain x where x: "shelves s i j0 = Some x" "getStringId (getID x) = k"
      by (auto simp: matchesId_def split: option.splits)
    from checkoutCompartments_hit [OF lt15 x] lt15 x show ?thesis by blast
  next
    case False
    from lt have le: "j0 + 1 \<le> j" by simp
    from Suc.hyps(1) [OF n le Suc.prems(2,3)] obtain j' x where
      r: "j0 + 1 \<le> j'" "j' < 15" "shelves s i j' = Some x" "getStringId (getID x) = k"
         "checkoutCompartments d k b s i (j0 + 1) = Some (checkoutAt d k b s i j' x)"
      by blast
    from r(1) have le': "j0 \<le> j'" by simp
    from r(5) checkoutCompartments_step [OF lt15 False, of d b]
    have "checkoutCompartments d k b s i j0 = Some (checkoutAt d k b s i j' x)" by simp
    with le' r(2,3,4) show ?thesis by blast
  qed
qed

lemma shelves_some:
  "i0 \<le> i \<Longrightarrow> i < 3 \<Longrightarrow> 0 \<le> j \<Longrightarrow> j < 15 \<Longrightarrow> matchesId s k i j \<Longrightarrow>
   \<exists>i' j' x. i0 \<le> i' \<and> i' < 3 \<and> 0 \<le> j' \<and> j' < 15 \<and> shelves s i' j' = Some x \<and>
     getStringId (getID x) = k \<and>
     checkoutShelves d k b s i0 = Some (checkoutAt d k b s i' j' x)"
proof (induction "nat (i - i0)" arbitrary: i0)
  case 0
  then have eq: "i0 = i" by simp
  from compartments_some [OF "0.prems"(3,4,5), of d b] obtain j' x where
    r: "0 \<le> j'" "j' < 15" "shelves s i j' = Some x" "getStringId (getID x) = k"
       "checkoutCompartments d k b s i 0 = Some (checkoutAt d k b s i j' x)"
    by blast
  from checkoutShelves_hit [OF "0.prems"(2) r(5)] r "0.prems"(2) eq show ?case by blast
next
  case (Suc n)
  then have lt: "i0 < i" and n: "n = nat (i - (i0 + 1))" by linarith+
  from lt Suc.prems have lt3: "i0 < 3" by simp
  show ?case
  proof (cases "checkoutCompartments d k b s i0 0")
    case None
    from lt have le: "i0 + 1 \<le> i" by simp
    from Suc.hyps(1) [OF n le Suc.prems(2,3,4,5)] obtain i' j' x where
      r: "i0 + 1 \<le> i'" "i' < 3" "0 \<le> j'" "j' < 15" "shelves s i' j' = Some x"
         "getStringId (getID x) = k"
         "checkoutShelves d k b s (i0 + 1) = Some (checkoutAt d k b s i' j' x)"
      by blast
    from r(1) have le': "i0 \<le> i'" by simp
    from r(7) checkoutShelves_step [OF lt3 None]
    have "checkoutShelves d k b s i0 = Some (checkoutAt d k b s i' j' x)" by simp
    with le' r(2,3,4,5,6) show ?thesis by blast
  next
    case (Some r)
    have "\<exists>j. 0 \<le> j \<and> j < 15 \<and> matchesId s k i0 j"
    proof (rule ccontr)
      assume "\<not> (\<exists>j. 0 \<le> j \<and> j < 15 \<and> matchesId s k i0 j)"
      then have "\<forall>j. 0 \<le> j \<and> j < 15 \<longrightarrow> \<not> matchesId s k i0 j" by blast
      from compartments_none [OF this, of d b] Some show False by simp
    qed
    then obtain j0 where j0: "0 \<le> j0" "j0 < 15" "matchesId s k i0 j0" by blast
    from compartments_some [OF j0, of d b] obtain j' x where
      q: "0 \<le> j'" "j' < 15" "shelves s i0 j' = Some x" "getStringId (getID x) = k"
         "checkoutCompartments d k b s i0 0 = Some (checkoutAt d k b s i0 j' x)"
      by blast
    from checkoutShelves_hit [OF lt3 q(5)] q lt3 show ?thesis by blast
  qed
qed

section \<open>Slots and single operations\<close>

lemma Position_eq_iff: "p = q \<longleftrightarrow> getRow p = getRow q \<and> getCol p = getCol q"
  by (cases p; cases q) simp

lemma setSlot_apply:
  "setSlot sh pos v i j = (if i = getRow pos \<and> j = getCol pos then v else sh i j)"
  by (simp add: setSlot_def)

lemma slot_setSlot:
  "slot (setSlot sh pos v) q = (if q = pos then v else slot sh q)"
  by (simp add: slot_def setSlot_apply Position_eq_iff)

lemma setSlot_restore:
  "setSlot (setSlot sh pos v) pos (sh (getRow pos) (getCol pos)) = sh"
  by (rule ext, rule ext) (simp add: setSlot_apply)

lemma checkoutAt_state:
  "shelves s i j = Some x \<Longrightarrow>
   checkoutAt d k b s i j x =
     (x, s\<lparr>shelves := setSlot (shelves s) (Position i j) None,
           checkedOutItems := emplace k \<lparr>checkedOutBy = b, dueDate = d,
             originalPosition = Position i j, item = Some x\<rparr> (checkedOutItems s)\<rparr>)"
  by (simp add: checkoutAt_def Let_def)

lemma getStringId_1: "getStringId 1 = ''1''"
  by (simp add: getStringId_def to_string_def nat_to_string.simps digit_char_def)

lemma getStringId_2: "getStringId 2 = ''2''"
  by (simp add: getStringId_def to_string_def nat_to_string.simps digit_char_def)

lemma addItem_ok:
  "isValid pos \<Longrightarrow> slot (shelves s) pos = None \<Longrightarrow>
   addItem pos itm s = (Inr (), s\<lparr>shelves := setSlot (shelves s) pos (Some (Item_copy itm))\<rparr>)"
  by (simp add: addItem_def isCompartmentEmpty_def)

lemma checkoutItem_at:
  assumes "0 \<le> i" "i < 3" "0 \<le> j" "j < 15" "shelves s i j = Some x" "getStringId (getID x) = k"
    and "\<forall>i' j'. 0 \<le> i' \<and> i' < 3 \<and> 0 \<le> j' \<and> j' < 15 \<and> (i' < i \<or> (i' = i \<and> j' < j)) \<longrightarrow>
       \<not> matchesId s k i' j'"
  shows "checkoutItem d k b s =
        (Inr x, s\<lparr>shelves := setSlot (shelves s) (Position i j) None,
                  checkedOutItems := emplace k \<lparr>checkedOutBy = b, dueDate = d,
                    originalPosition = Position i j, item = Some x\<rparr> (checkedOutItems s)\<rparr>)"
proof -
  have "checkoutShelves d k b s 0 = Some (checkoutAt d k b s i j x)"
    using assms by (intro shelves_first) simp_all
  with assms(5) show ?thesis by (simp add: checkoutItem_def checkoutAt_state)
qed

lemma checkoutItem_none:
  "\<forall>i j. 0 \<le> i \<and> i < 3 \<and> 0 \<le> j \<and> j < 15 \<longrightarrow> \<not> matchesId s k i j \<Longrightarrow>
   checkoutItem d k b s = (Inl ItemNotFound, s)"
  using shelves_none [of 0 s k d b] by (simp add: checkoutItem_def)

section \<open>The concrete runs, evaluated\<close>

lemma ow1_eval:
  "ow1 = \<lparr>shelves = setSlot (\<lambda>i j. None) (Position 0 0) (Some (Item ''Dune'' ''novel'' 1)),
          checkedOutItems = Map.empty\<rparr>"
  by (simp add: ow1_def addItem_ok isValid_def slot_def newInventory_def Item_copy_def bookX_def)

lemma checkout_ow1:
  "checkoutItem d ''1'' b ow1 =
     (Inr (Item ''Dune'' ''novel'' 1),
      \<lparr>shelves = (\<lambda>i j. None),
       checkedOutItems = [''1'' \<mapsto> \<lparr>checkedOutBy = b, dueDate = d,
          originalPosition = Position 0 0, item = Some (Item ''Dune'' ''novel'' 1)\<rparr>]\<rparr>)"
proof -
  have "checkoutItem d ''1'' b ow1 =
    (Inr (Item ''Dune'' ''novel'' 1),
     ow1\<lparr>shelves := setSlot (shelves ow1) (Position 0 0) None,
          checkedOutItems := emplace ''1'' \<lparr>checkedOutBy = b, dueDate = d,
             originalPosition = Position 0 0, item = Some (Item ''Dune'' ''novel'' 1)\<rparr>
             (checkedOutItems ow1)\<rparr>)"
    by (rule checkoutItem_at) (auto simp: ow1_eval setSlot_apply getStringId_1)
  then show ?thesis
    by (simp add: ow1_eval emplace_def setSlot_def fun_eq_iff)
qed

lemma ow2_eval:
  "ow2 = \<lparr>shelves = (\<lambda>i j. None),
          checkedOutItems = [''1'' \<mapsto> \<lparr>checkedOutBy = ''Alice'', dueDate = ''2025-06-04'',
             originalPosition = Position 0 0, item = Some (Item ''Dune'' ''novel'' 1)\<rparr>]\<rparr>"
proof -
  have "checkoutItem ''2025-06-04'' ''1'' ''Alice'' ow1 =
    (Inr (Item ''Dune'' ''novel'' 1),
     ow1\<lparr>shelves := setSlot (shelves ow1) (Position 0 0) None,
          checkedOutItems := emplace ''1'' \<lparr>checkedOutBy = ''Alice'', dueDate = ''2025-06-04'',
             originalPosition = Position 0 0, item = Some (Item ''Dune'' ''novel'' 1)\<rparr>
             (checkedOutItems ow1)\<rparr>)"
    by (rule checkoutItem_at) (auto simp: ow1_eval setSlot_apply getStringId_1)
  then show ?thesis
    by (simp add: ow2_def ow1_eval emplace_def setSlot_def fun_eq_iff)
qed

lemma ow3_eval:
  "ow3 = \<lparr>shelves = setSlot (\<lambda>i j. None) (Position 0 0) (Some (Item ''Wired'' ''monthly'' 2)),
          checkedOutItems = [''1'' \<mapsto> \<lparr>checkedOutBy = ''Alice'', dueDate = ''2025-06-04'',
             originalPosition = Position 0 0, item = Some (Item ''Dune'' ''novel'' 1)\<rparr>]\<rparr>"
  by (simp add: ow3_def addItem_ok isValid_def slot_def ow2_eval Item_copy_def magY_def)

lemma ow4_eval:
  "ow4 = \<lparr>shelves = setSlot (\<lambda>i j. None) (Position 0 0) (Some (Item ''Dune'' ''novel'' 1)),
          checkedOutItems = Map.empty\<rparr>"
  by (simp add: ow4_def checkinItem_def standIn_def getStringId_1 ow3_eval setSlot_def fun_eq_iff)

lemma sw1_eval:
  "sw1 = \<lparr>shelves = setSlot (setSlot (\<lambda>i j. None) (Position 0 0) (Some (Item ''Dune'' ''novel'' 1)))
                      (Position 0 1) (Some (Item ''Wired'' ''monthly'' 2)),
          checkedOutItems = Map.empty\<rparr>"
  by (simp add: sw1_def addItem_ok isValid_def slot_def ow1_eval Item_copy_def magY_def setSlot_apply)

lemma dup3_eval:
  "dup3 = \<lparr>shelves = setSlot (\<lambda>i j. None) (Position 0 1) (Some (Item ''Byte'' ''monthly'' 1)),
           checkedOutItems = [''1'' \<mapsto> bookInfo]\<rparr>"
  by (simp add: dup3_def addItem_ok isValid_def slot_def ow2_eval Item_copy_def magDup_def bookInfo_def)

lemma dup6_eval:
  "dup6 = \<lparr>shelves = setSlot (setSlot (\<lambda>i j. None) (Position 0 1) (Some (Item ''Byte'' ''monthly'' 1)))
                        (Position 1 0) (Some (Item [] [] 1)),
           checkedOutItems = [''1'' \<mapsto> bookInfo]\<rparr>"
  by (simp add: dup6_def addItem_ok isValid_def slot_def dup3_eval Item_copy_def standIn_def
      setSlot_apply)

section \<open>The calendar\<close>

text \<open>
  One turn of \<open>normDay\<close>; then: carrying a day number that is \<open>k\<close> days past a valid date
  gives the date \<open>k\<close> days later.
\<close>

lemma normDay_in: "1 \<le> d \<Longrightarrow> d \<le> daysInMonth y m \<Longrightarrow> normDay y m d = (y, m, d)"
  by (subst normDay.simps) simp

lemma normDay_over:
  "d > daysInMonth y m \<Longrightarrow> 1 \<le> d \<Longrightarrow>
   normDay y m d = normDay (fst (nextMonth y m)) (snd (nextMonth y m)) (d - daysInMonth y m)"
  by (subst normDay.simps) simp

lemma normDay_under:
  "d < 1 \<Longrightarrow>
   normDay y m d = normDay (fst (prevMonth y m)) (snd (prevMonth y m))
          (d + daysInMonth (fst (prevMonth y m)) (snd (prevMonth y m)))"
  by (subst normDay.simps) simp

lemma daysInMonth_pos: "1 \<le> daysInMonth y m"
  by (simp add: daysInMonth_def)

lemma normDay_succ: "1 \<le> d \<Longrightarrow> normDay y m (d + 1) = nextDay (normDay y m d)"
proof (induction "nat d" arbitrary: y m d rule: less_induct)
  case less
  show ?case
  proof (cases "d > daysInMonth y m")
    case True
    let ?y = "fst (nextMonth y m)" and ?m = "snd (nextMonth y m)"
    from True daysInMonth_pos [of y m] have smaller: "nat (d - daysInMonth y m) < nat d"
      and ge: "1 \<le> d - daysInMonth y m" by linarith+
    from True less.prems have "normDay y m (d + 1) = normDay ?y ?m (d + 1 - daysInMonth y m)"
      by (intro normDay_over) simp_all
    also have "\<dots> = normDay ?y ?m ((d - daysInMonth y m) + 1)" by (simp add: algebra_simps)
    also from less.hyps [OF smaller ge] have "\<dots> = nextDay (normDay ?y ?m (d - daysInMonth y m))" .
    also from True less.prems have "normDay ?y ?m (d - daysInMonth y m) = normDay y m d"
      by (simp add: normDay_over)
    finally show ?thesis .
  next
    case False
    with less.prems have here: "normDay y m d = (y, m, d)" by (simp add: normDay_in)
    show ?thesis
    proof (cases "d < daysInMonth y m")
      case True
      with less.prems have "normDay y m (d + 1) = (y, m, d + 1)" by (simp add: normDay_in)
      with True here show ?thesis by (simp add: nextDay_def)
    next
      case last: False
      with False have eq: "d = daysInMonth y m" by simp
      let ?y = "fst (nextMonth y m)" and ?m = "snd (nextMonth y m)"
      from eq less.prems have "normDay y m (d + 1) = normDay ?y ?m (d + 1 - daysInMonth y m)"
        by (intro normDay_over) simp_all
      also from eq have "\<dots> = normDay ?y ?m 1" by simp
      also have "\<dots> = (?y, ?m, 1)" by (simp add: normDay_in daysInMonth_pos)
      finally show ?thesis using here eq by (simp add: nextDay_def)
    qed
  qed
qed

lemma normDay_funpow:
  "1 \<le> d \<Longrightarrow> d \<le> daysInMonth y m \<Longrightarrow> normDay y m (d + int k) = (nextDay ^^ k) (y, m, d)"
proof (induction k)
  case 0
  then show ?case by (simp add: normDay_in)
next
  case (Suc k)
  from Suc.prems have "1 \<le> d + int k" by simp
  from normDay_succ [OF this, of y m] Suc show ?case by (simp add: algebra_simps)
qed

text \<open>
  For a clock reading with all fields in range, the due date is the date 30 calendar days
  later whenever \<open>tm_isdst\<close> is negative or agrees with the state of the zone at that
  time of the due day.
\<close>

lemma generateDueDate_calendar:
  assumes sec: "0 \<le> tm_sec now" "tm_sec now < 60"
    and minute: "0 \<le> tm_min now" "tm_min now < 60"
    and hour: "0 \<le> tm_hour now" "tm_hour now < 24"
    and mon: "0 \<le> tm_mon now" "tm_mon now < 12"
    and mday: "1 \<le> tm_mday now" "tm_mday now \<le> daysInMonth (1900 + tm_year now) (tm_mon now)"
    and dst: "tm_isdst now < 0 \<or>
              (tm_isdst now > 0) = zone_dst z (normalise (now\<lparr>tm_mday := tm_mday now + 30\<rparr>))"
  shows "generateDueDate z now =
         formatYmd (calendarPlusDays 30 (1900 + tm_year now, tm_mon now, tm_mday now))"
proof -
  let ?t = "now\<lparr>tm_mday := tm_mday now + 30\<rparr>"
  let ?secs = "tm_hour now * 3600 + tm_min now * 60 + tm_sec now"
  from sec minute hour have "0 \<le> ?secs" "?secs < 86400" by linarith+
  then have carry: "?secs div 86400 = 0" by simp
  from mon have m: "tm_mon now div 12 = 0" "tm_mon now mod 12 = tm_mon now" by simp_all
  have "normDay (1900 + tm_year now) (tm_mon now) (tm_mday now + int 30) =
        (nextDay ^^ 30) (1900 + tm_year now, tm_mon now, tm_mday now)"
    using mday by (rule normDay_funpow)
  then have nd: "normDay (1900 + tm_year now) (tm_mon now) (tm_mday now + 30) =
        calendarPlusDays 30 (1900 + tm_year now, tm_mon now, tm_mday now)"
    by (simp add: calendarPlusDays_def)
  have date: "put_time_Ymd (normalise ?t) =
        formatYmd (calendarPlusDays 30 (1900 + tm_year now, tm_mon now, tm_mday now))"
    by (simp add: put_time_Ymd_def normalise_def Let_def carry m nd)
  have "put_time_Ymd (mktime z ?t) = put_time_Ymd (normalise ?t)"
    using dst by (auto simp: mktime_def Let_def put_time_Ymd_def)
  with date show ?thesis by (simp add: generateDueDate_def Let_def)
qed

text \<open>The clock reading \<open>halfPastMidnight\<close> in the zone \<open>cet2025\<close>, step by step.\<close>

lemma normDay_58: "normDay 2025 8 58 = (2025, 9, 28)"
proof -
  have "normDay 2025 8 58 = normDay 2025 9 28"
    by (subst normDay_over) (simp_all add: daysInMonth_def nextMonth_def)
  also have "\<dots> = (2025, 9, 28)"
    by (rule normDay_in) (simp_all add: daysInMonth_def)
  finally show ?thesis .
qed

lemma normalise_due:
  "normalise (halfPastMidnight\<lparr>tm_mday := tm_mday halfPastMidnight + 30\<rparr>) =
     \<lparr>tm_sec = 0, tm_min = 30, tm_hour = 0, tm_mday = 28, tm_mon = 9, tm_year = 125, tm_isdst = 1\<rparr>"
  by (simp add: normalise_def Let_def halfPastMidnight_def normDay_58)

lemma normalise_back:
  "normalise \<lparr>tm_sec = - 3600, tm_min = 30, tm_hour = 0, tm_mday = 28, tm_mon = 9, tm_year = 125,
       tm_isdst = 1\<rparr> =
     \<lparr>tm_sec = 0, tm_min = 30, tm_hour = 23, tm_mday = 27, tm_mon = 9, tm_year = 125, tm_isdst = 1\<rparr>"
proof -
  have "normDay 2025 9 27 = (2025, 9, 27)"
    by (rule normDay_in) (simp_all add: daysInMonth_def)
  then show ?thesis by (simp add: normalise_def Let_def)
qed

lemma mktime_due:
  "mktime cet2025 (halfPastMidnight\<lparr>tm_mday := tm_mday halfPastMidnight + 30\<rparr>) =
     \<lparr>tm_sec = 0, tm_min = 30, tm_hour = 23, tm_mday = 27, tm_mon = 9, tm_year = 125, tm_isdst = 0\<rparr>"
proof -
  have flag: "tm_isdst (halfPastMidnight\<lparr>tm_mday := tm_mday halfPastMidnight + 30\<rparr>) = 1"
    by (simp add: halfPastMidnight_def)
  have std: "\<not> zone_dst cet2025
     \<lparr>tm_sec = 0, tm_min = 30, tm_hour = 0, tm_mday = 28, tm_mon = 9, tm_year = 125, tm_isdst = 1\<rparr>"
    by (simp add: cet2025_def)
  have save: "zone_save cet2025 = 3600" by (simp add: cet2025_def)
  show ?thesis
    unfolding mktime_def Let_def normalise_due flag
    using std by (simp add: save normalise_back)
qed

lemma generateDueDate_example: "generateDueDate cet2025 halfPastMidnight = ''2025-10-27''"
  unfolding generateDueDate_def Let_def mktime_due
  by (simp add: put_time_Ymd_def formatYmd_def pad2_def to_string_def nat_to_string.simps
      digit_char_def)

lemma calendarPlusDays_example: "calendarPlusDays 30 (2025, 8, 28) = (2025, 9, 28)"
proof -
  have "normDay 2025 8 (28 + int 30) = (nextDay ^^ 30) (2025, 8, 28)"
    by (rule normDay_funpow) (simp_all add: daysInMonth_def)
  then show ?thesis by (simp add: calendarPlusDays_def normDay_58)
qed

section \<open>Storing an item\<close>

text \<open>
  Claim C1: for every item (Book, Magazine or Movie) and every valid, empty position,
  \<open>addItem\<close> stores a copy that keeps the item's subtype, so that the stored value
  shows the same subtype-specific fields on later display as the item passed in.
  The code does not do this. Evaluated on a new inventory and a Book: the call succeeds,
  the slot holds an object of class \<open>Item\<close> with the three base fields and not the Book,
  and while the Book prints its title, author and copyright date, the stored value prints
  the three base lines only.
\<close>

theorem addItem_slices_book:
  "addItem (Position 0 0) bookX newInventory =
     (Inr (), \<lparr>shelves = setSlot (\<lambda>i j. None) (Position 0 0) (Some (Item ''Dune'' ''novel'' 1)),
               checkedOutItems = Map.empty\<rparr>) \<and>
   slot (shelves (snd (addItem (Position 0 0) bookX newInventory))) (Position 0 0) \<noteq> Some bookX \<and>
   own_print bookX =
     ''ID: 1'' @ endl @ ''Name: Dune'' @ endl @ ''Description: novel'' @ endl @
     ''Title: Dune'' @ endl @ ''Author: Herbert'' @ endl @ ''Copyright Date: 1965'' @ endl \<and>
   map_option Item_print (slot (shelves (snd (addItem (Position 0 0) bookX newInventory))) (Position 0 0)) =
     Some (''ID: 1'' @ endl @ ''Name: Dune'' @ endl @ ''Description: novel'' @ endl)"
  by (simp add: addItem_ok isValid_def slot_def newInventory_def Item_copy_def bookX_def
      setSlot_apply Item_print_def to_string_def nat_to_string.simps digit_char_def)

section \<open>Ownership\<close>

text \<open>
  Claim C2: in every state reached from a new inventory by successful calls, with unique
  identities, each identity that has been added is owned by exactly one of a grid slot or
  a ledger record, never by both and never by neither.
  The code does not keep the second half. In the run \<open>ow\<close> the identities 1 and 2 are
  distinct and all four calls succeed; afterwards no slot holds an item of identity 2
  and the ledger has no record for it.
\<close>

theorem overwritten_identity_owned_by_neither:
  "fst (addItem (Position 0 0) bookX newInventory) = Inr () \<and>
   fst (checkoutItem ''2025-06-04'' ''1'' ''Alice'' ow1) = Inr (Item ''Dune'' ''novel'' 1) \<and>
   fst (addItem (Position 0 0) magY ow2) = Inr () \<and>
   fst (checkinItem standIn ow3) = Inr () \<and>
   (\<forall>i j. \<not> matchesId ow4 ''2'' i j) \<and>
   fst (isItemCheckedOut ''2'' ow4) = False"
proof -
  have a: "fst (addItem (Position 0 0) bookX newInventory) = Inr ()"
    by (simp add: addItem_ok isValid_def slot_def newInventory_def)
  have "checkoutItem ''2025-06-04'' ''1'' ''Alice'' ow1 =
    (Inr (Item ''Dune'' ''novel'' 1),
     ow1\<lparr>shelves := setSlot (shelves ow1) (Position 0 0) None,
          checkedOutItems := emplace ''1'' \<lparr>checkedOutBy = ''Alice'', dueDate = ''2025-06-04'',
             originalPosition = Position 0 0, item = Some (Item ''Dune'' ''novel'' 1)\<rparr>
             (checkedOutItems ow1)\<rparr>)"
    by (rule checkoutItem_at) (auto simp: ow1_eval setSlot_apply getStringId_1)
  then have b: "fst (checkoutItem ''2025-06-04'' ''1'' ''Alice'' ow1) = Inr (Item ''Dune'' ''novel'' 1)"
    by simp
  have c: "fst (addItem (Position 0 0) magY ow2) = Inr ()"
    by (simp add: addItem_ok isValid_def slot_def ow2_eval)
  have d: "fst (checkinItem standIn ow3) = Inr ()"
    by (simp add: checkinItem_def standIn_def getStringId_1 ow3_eval)
  have e: "\<forall>i j. \<not> matchesId ow4 ''2'' i j"
    by (simp add: matchesId_def ow4_eval setSlot_apply getStringId_1)
  have f: "fst (isItemCheckedOut ''2'' ow4) = False"
    by (simp add: isItemCheckedOut_def ow4_eval)
  from a b c d e f show ?thesis by blast
qed

section \<open>Checking in\<close>

text \<open>
  Claim C3: \<open>checkinItem\<close> fails with \<open>NotCheckedOut\<close> exactly when the decimal string of
  the item's identity is not a key of the ledger (and then changes nothing); it
  depends on the identity of its argument only; on success it puts the held item of the
  ledger record into the slot at the record's original position and removes the record.
\<close>

theorem checkinItem_spec:
  "(fst (checkinItem itm s) = Inl NotCheckedOut \<longleftrightarrow> checkedOutItems s (getStringId (getID itm)) = None) \<and>
   (checkedOutItems s (getStringId (getID itm)) = None \<longrightarrow> checkinItem itm s = (Inl NotCheckedOut, s)) \<and>
   (getID itm' = getID itm \<longrightarrow> checkinItem itm' s = checkinItem itm s) \<and>
   (checkedOutItems s (getStringId (getID itm)) = Some info \<longrightarrow>
      checkinItem itm s =
        (Inr (), s\<lparr>shelves := setSlot (shelves s) (originalPosition info) (item info),
                   checkedOutItems := (checkedOutItems s) (getStringId (getID itm) := None)\<rparr>))"
  by (simp add: checkinItem_def Let_def split: option.splits)

text \<open>
  The statement at the state \<open>ow3\<close>, whose ledger holds identity 1 and not identity 2.
\<close>

theorem checkinItem_spec_witness:
  "(fst (checkinItem standIn ow3) = Inl NotCheckedOut \<longleftrightarrow> checkedOutItems ow3 ''1'' = None) \<and>
   checkinItem magY ow3 = (Inl NotCheckedOut, ow3) \<and>
   checkinItem bookX ow3 = checkinItem standIn ow3 \<and>
   slot (shelves (snd (checkinItem standIn ow3))) (Position 0 0) = Some (Item ''Dune'' ''novel'' 1) \<and>
   checkedOutItems (snd (checkinItem standIn ow3)) ''1'' = None"
  using checkinItem_spec [of standIn ow3 bookX
      "\<lparr>checkedOutBy = ''Alice'', dueDate = ''2025-06-04'',
             originalPosition = Position 0 0, item = Some (Item ''Dune'' ''novel'' 1)\<rparr>"]
    checkinItem_spec [of magY ow3 magY bookInfo]
  by (simp add: standIn_def bookX_def magY_def getStringId_1 getStringId_2 ow3_eval slot_setSlot)

section \<open>Checking out\<close>

text \<open>
  Claim C4: \<open>checkoutItem\<close> goes through the 45 slots in row-major order and acts on the
  first occupied slot whose item has the identity asked for; only the grid is searched,
  and the call fails with \<open>ItemNotFound\<close> whenever no slot of the grid matches, in
  particular on an empty grid and whatever the ledger holds.
  In the third part \<open>(i, j)\<close> is a matching slot with no matching slot before it in
  row-major order; the call then returns its item, empties that slot and records it in the
  ledger under the identity, with \<open>(i, j)\<close> as original position.
\<close>

theorem checkoutItem_first_match:
  "((\<forall>i j. 0 \<le> i \<and> i < 3 \<and> 0 \<le> j \<and> j < 15 \<longrightarrow> \<not> matchesId s itemId i j) \<longrightarrow>
      checkoutItem due itemId who s = (Inl ItemNotFound, s)) \<and>
   ((\<forall>i j. shelves s i j = None) \<longrightarrow> checkoutItem due itemId who s = (Inl ItemNotFound, s)) \<and>
   (0 \<le> i \<and> i < 3 \<and> 0 \<le> j \<and> j < 15 \<and> shelves s i j = Some x \<and> getStringId (getID x) = itemId \<and>
    (\<forall>i' j'. 0 \<le> i' \<and> i' < 3 \<and> 0 \<le> j' \<and> j' < 15 \<and> (i' < i \<or> (i' = i \<and> j' < j)) \<longrightarrow>
       \<not> matchesId s itemId i' j') \<longrightarrow>
      checkoutItem due itemId who s =
        (Inr x, s\<lparr>shelves := setSlot (shelves s) (Position i j) None,
                  checkedOutItems := emplace itemId \<lparr>checkedOutBy = who, dueDate = due,
                    originalPosition = Position i j, item = Some x\<rparr> (checkedOutItems s)\<rparr>))"
proof (intro conjI impI)
  assume "\<forall>i j. 0 \<le> i \<and> i < 3 \<and> 0 \<le> j \<and> j < 15 \<longrightarrow> \<not> matchesId s itemId i j"
  from shelves_none [OF this, of due who]
  show "checkoutItem due itemId who s = (Inl ItemNotFound, s)"
    by (simp add: checkoutItem_def)
next
  assume "\<forall>i j. shelves s i j = None"
  then have "\<forall>i j. 0 \<le> i \<and> i < 3 \<and> 0 \<le> j \<and> j < 15 \<longrightarrow> \<not> matchesId s itemId i j"
    by (simp add: matchesId_def)
  from shelves_none [OF this, of due who]
  show "checkoutItem due itemId who s = (Inl ItemNotFound, s)"
    by (simp add: checkoutItem_def)
next
  assume a: "0 \<le> i \<and> i < 3 \<and> 0 \<le> j \<and> j < 15 \<and> shelves s i j = Some x \<and>
    getStringId (getID x) = itemId \<and>
    (\<forall>i' j'. 0 \<le> i' \<and> i' < 3 \<and> 0 \<le> j' \<and> j' < 15 \<and> (i' < i \<or> (i' = i \<and> j' < j)) \<longrightarrow>
       \<not> matchesId s itemId i' j')"
  then have "checkoutShelves due itemId who s 0 = Some (checkoutAt due itemId who s i j x)"
    by (intro shelves_first) simp_all
  with a show "checkoutItem due itemId who s =
        (Inr x, s\<lparr>shelves := setSlot (shelves s) (Position i j) None,
                  checkedOutItems := emplace itemId \<lparr>checkedOutBy = who, dueDate = due,
                    originalPosition = Position i j, item = Some x\<rparr> (checkedOutItems s)\<rparr>)"
    by (simp add: checkoutItem_def checkoutAt_state)
qed

text \<open>
  The statement at \<open>ow2\<close>, whose grid is empty while its ledger holds identity 1, and at
  \<open>dup6\<close>, where the slots \<open>(0, 1)\<close> and \<open>(1, 0)\<close> both hold identity 1.
\<close>

theorem checkoutItem_first_match_witness:
  "(\<forall>i j. shelves ow2 i j = None) \<and> fst (isItemCheckedOut ''1'' ow2) \<and>
   checkoutItem ''2025-06-07'' ''1'' ''Dan'' ow2 = (Inl ItemNotFound, ow2) \<and>
   checkoutItem ''2025-06-07'' ''2'' ''Dan'' dup6 = (Inl ItemNotFound, dup6) \<and>
   matchesId dup6 ''1'' 0 1 \<and> matchesId dup6 ''1'' 1 0 \<and>
   fst (checkoutItem ''2025-06-07'' ''1'' ''Dan'' dup6) = Inr (Item ''Byte'' ''monthly'' 1) \<and>
   slot (shelves (snd (checkoutItem ''2025-06-07'' ''1'' ''Dan'' dup6))) (Position 0 1) = None \<and>
   slot (shelves (snd (checkoutItem ''2025-06-07'' ''1'' ''Dan'' dup6))) (Position 1 0) =
     Some (Item [] [] 1)"
proof -
  have e: "\<forall>i j. shelves ow2 i j = None" by (simp add: ow2_eval)
  have l: "fst (isItemCheckedOut ''1'' ow2)" by (simp add: isItemCheckedOut_def ow2_eval)
  from checkoutItem_first_match [of ow2 "''1''" "''2025-06-07''" "''Dan''" 0 0 standIn] e
  have 1: "checkoutItem ''2025-06-07'' ''1'' ''Dan'' ow2 = (Inl ItemNotFound, ow2)" by blast
  have n: "\<forall>i j. 0 \<le> i \<and> i < 3 \<and> 0 \<le> j \<and> j < 15 \<longrightarrow> \<not> matchesId dup6 ''2'' i j"
    by (simp add: matchesId_def dup6_eval setSlot_apply getStringId_1)
  from checkoutItem_first_match [of dup6 "''2''" "''2025-06-07''" "''Dan''" 0 0 standIn] n
  have 2: "checkoutItem ''2025-06-07'' ''2'' ''Dan'' dup6 = (Inl ItemNotFound, dup6)" by blast
  have m: "matchesId dup6 ''1'' 0 1" "matchesId dup6 ''1'' 1 0"
    by (simp_all add: matchesId_def dup6_eval setSlot_apply getStringId_1)
  have h: "0 \<le> (0::int) \<and> (0::int) < 3 \<and> 0 \<le> (1::int) \<and> (1::int) < 15 \<and>
    shelves dup6 0 1 = Some (Item ''Byte'' ''monthly'' 1) \<and>
    getStringId (getID (Item ''Byte'' ''monthly'' 1)) = ''1'' \<and>
    (\<forall>i' j'. 0 \<le> i' \<and> i' < 3 \<and> 0 \<le> j' \<and> j' < 15 \<and> (i' < 0 \<or> (i' = 0 \<and> j' < 1)) \<longrightarrow>
       \<not> matchesId dup6 ''1'' i' j')"
    by (auto simp: matchesId_def dup6_eval setSlot_apply getStringId_1)
  from checkoutItem_first_match [of dup6 "''1''" "''2025-06-07''" "''Dan''" 0 1
      "Item ''Byte'' ''monthly'' 1"] h
  have "checkoutItem ''2025-06-07'' ''1'' ''Dan'' dup6 =
        (Inr (Item ''Byte'' ''monthly'' 1),
         dup6\<lparr>shelves := setSlot (shelves dup6) (Position 0 1) None,
               checkedOutItems := emplace ''1'' \<lparr>checkedOutBy = ''Dan'', dueDate = ''2025-06-07'',
                    originalPosition = Position 0 1, item = Some (Item ''Byte'' ''monthly'' 1)\<rparr>
                  (checkedOutItems dup6)\<rparr>)"
    by blast
  then have 3: "fst (checkoutItem ''2025-06-07'' ''1'' ''Dan'' dup6) = Inr (Item ''Byte'' ''monthly'' 1) \<and>
   slot (shelves (snd (checkoutItem ''2025-06-07'' ''1'' ''Dan'' dup6))) (Position 0 1) = None \<and>
   slot (shelves (snd (checkoutItem ''2025-06-07'' ''1'' ''Dan'' dup6))) (Position 1 0) =
     Some (Item [] [] 1)"
    by (simp add: slot_def setSlot_apply dup6_eval)
  from e l 1 2 m 3 show ?thesis by blast
qed

section \<open>Failures\<close>

text \<open>
  Claim C5: whenever one of \<open>isCompartmentEmpty\<close>, \<open>addItem\<close>, \<open>checkoutItem\<close>,
  \<open>checkinItem\<close> and \<open>swapItems\<close> fails, the grid and the ledger are as they were
  before the call; in particular \<open>addItem\<close> at row 3 or at column 15 fails with
  \<open>InvalidPosition\<close> and changes no slot.
\<close>

theorem failed_operation_leaves_state:
  "(fst (isCompartmentEmpty pos s) = Inl e \<longrightarrow> snd (isCompartmentEmpty pos s) = s) \<and>
   (fst (addItem pos itm s) = Inl e \<longrightarrow> snd (addItem pos itm s) = s) \<and>
   (fst (checkoutItem due itemId who s) = Inl e \<longrightarrow> snd (checkoutItem due itemId who s) = s) \<and>
   (fst (checkinItem itm s) = Inl e \<longrightarrow> snd (checkinItem itm s) = s) \<and>
   (fst (swapItems pos pos2 s) = Inl e \<longrightarrow> snd (swapItems pos pos2 s) = s) \<and>
   (getRow pos = 3 \<or> getCol pos = 15 \<longrightarrow> addItem pos itm s = (Inl InvalidPosition, s))"
proof (intro conjI impI)
  assume "fst (isCompartmentEmpty pos s) = Inl e"
  then show "snd (isCompartmentEmpty pos s) = s"
    by (simp add: isCompartmentEmpty_def split: if_splits)
next
  assume "fst (addItem pos itm s) = Inl e"
  then show "snd (addItem pos itm s) = s"
    by (simp add: addItem_def isCompartmentEmpty_def split: if_splits)
next
  assume "fst (checkoutItem due itemId who s) = Inl e"
  then show "snd (checkoutItem due itemId who s) = s"
    by (simp add: checkoutItem_def split: option.splits prod.splits)
next
  assume "fst (checkinItem itm s) = Inl e"
  then show "snd (checkinItem itm s) = s"
    by (simp add: checkinItem_def Let_def split: option.splits)
next
  assume "fst (swapItems pos pos2 s) = Inl e"
  then show "snd (swapItems pos pos2 s) = s"
    by (auto simp: swapItems_def isCompartmentEmpty_def Let_def split: if_splits)
next
  assume "getRow pos = 3 \<or> getCol pos = 15"
  then have "\<not> isValid pos" by (auto simp: isValid_def)
  then show "addItem pos itm s = (Inl InvalidPosition, s)" by (simp add: addItem_def)
qed

text \<open>
  The statement at \<open>ow3\<close>, with one failing call for each operation and each error.
\<close>

theorem failed_operation_leaves_state_witness:
  "isCompartmentEmpty (Position 3 0) ow3 = (Inl InvalidPosition, ow3) \<and>
   addItem (Position 0 0) bookX ow3 = (Inl SlotOccupied, ow3) \<and>
   checkoutItem ''2025-06-06'' ''1'' ''Carol'' ow3 = (Inl ItemNotFound, ow3) \<and>
   checkinItem magY ow3 = (Inl NotCheckedOut, ow3) \<and>
   swapItems (Position 0 0) (Position 0 1) ow3 = (Inl EmptySlot, ow3) \<and>
   swapItems (Position 0 0) (Position 0 15) ow3 = (Inl InvalidPosition, ow3) \<and>
   addItem (Position 3 0) bookX ow3 = (Inl InvalidPosition, ow3) \<and>
   addItem (Position 0 15) bookX ow3 = (Inl InvalidPosition, ow3)"
proof -
  have a: "fst (isCompartmentEmpty (Position 3 0) ow3) = Inl InvalidPosition"
    by (simp add: isCompartmentEmpty_def isValid_def)
  have b: "fst (addItem (Position 0 0) bookX ow3) = Inl SlotOccupied"
    by (simp add: addItem_def isCompartmentEmpty_def isValid_def slot_def ow3_eval setSlot_apply)
  have "\<forall>i j. 0 \<le> i \<and> i < 3 \<and> 0 \<le> j \<and> j < 15 \<longrightarrow> \<not> matchesId ow3 ''1'' i j"
    by (simp add: matchesId_def ow3_eval setSlot_apply getStringId_2)
  then have c: "fst (checkoutItem ''2025-06-06'' ''1'' ''Carol'' ow3) = Inl ItemNotFound"
    by (simp add: checkoutItem_none)
  have d: "fst (checkinItem magY ow3) = Inl NotCheckedOut"
    by (simp add: checkinItem_def magY_def getStringId_2 ow3_eval)
  have e: "fst (swapItems (Position 0 0) (Position 0 1) ow3) = Inl EmptySlot"
    by (simp add: swapItems_def isCompartmentEmpty_def isValid_def slot_def ow3_eval setSlot_apply)
  have f: "fst (swapItems (Position 0 0) (Position 0 15) ow3) = Inl InvalidPosition"
    by (simp add: swapItems_def isValid_def)
  note t1 = failed_operation_leaves_state [of "Position 3 0" ow3 InvalidPosition bookX
      "''2025-06-06''" "''1''" "''Carol''" "Position 0 0"]
  note t2 = failed_operation_leaves_state [of "Position 0 0" ow3 SlotOccupied bookX
      "''2025-06-06''" "''1''" "''Carol''" "Position 0 1"]
  note t3 = failed_operation_leaves_state [of "Position 0 0" ow3 ItemNotFound bookX
      "''2025-06-06''" "''1''" "''Carol''" "Position 0 1"]
  note t4 = failed_operation_leaves_state [of "Position 0 0" ow3 NotCheckedOut magY
      "''2025-06-06''" "''1''" "''Carol''" "Position 0 1"]
  note t5 = failed_operation_leaves_state [of "Position 0 0" ow3 EmptySlot bookX
      "''2025-06-06''" "''1''" "''Carol''" "Position 0 1"]
  note t6 = failed_operation_leaves_state [of "Position 0 0" ow3 InvalidPosition bookX
      "''2025-06-06''" "''1''" "''Carol''" "Position 0 15"]
  note t7 = failed_operation_leaves_state [of "Position 0 15" ow3 InvalidPosition bookX
      "''2025-06-06''" "''1''" "''Carol''" "Position 0 15"]
  from a t1 have 1: "isCompartmentEmpty (Position 3 0) ow3 = (Inl InvalidPosition, ow3)"
    by (simp add: prod_eq_iff)
  from b t2 have 2: "addItem (Position 0 0) bookX ow3 = (Inl SlotOccupied, ow3)"
    by (simp add: prod_eq_iff)
  from c t3 have 3: "checkoutItem ''2025-06-06'' ''1'' ''Carol'' ow3 = (Inl ItemNotFound, ow3)"
    by (simp add: prod_eq_iff)
  from d t4 have 4: "checkinItem magY ow3 = (Inl NotCheckedOut, ow3)"
    by (simp add: prod_eq_iff)
  from e t5 have 5: "swapItems (Position 0 0) (Position 0 1) ow3 = (Inl EmptySlot, ow3)"
    by (simp add: prod_eq_iff)
  from f t6 have 6: "swapItems (Position 0 0) (Position 0 15) ow3 = (Inl InvalidPosition, ow3)"
    by (simp add: prod_eq_iff)
  from t1 have 7: "addItem (Position 3 0) bookX ow3 = (Inl InvalidPosition, ow3)" by simp
  from t7 have 8: "addItem (Position 0 15) bookX ow3 = (Inl InvalidPosition, ow3)" by simp
  from 1 2 3 4 5 6 7 8 show ?thesis by blast
qed

section \<open>Round trip\<close>

text \<open>
  What the round trip does keep. When an item is added at a valid empty position and its
  identity is not a key of the ledger, a checkout of that identity followed at once by a
  checkin with any value of the same identity succeeds and gives back exactly the state
  that \<open>addItem\<close> left: the slot is occupied with what \<open>addItem\<close> stored there, every
  other slot is as it was, and the ledger has no record for the identity.
\<close>

lemma roundtrip_restores:
  assumes valid: "isValid pos" and empty: "slot (shelves s) pos = None"
    and fresh: "checkedOutItems s (getStringId (getID itm)) = None"
    and ident: "getID standin = getID itm"
  shows "fst (addItem pos itm s) = Inr () \<and>
         slot (shelves (snd (addItem pos itm s))) pos \<noteq> None \<and>
         checkedOutItems (snd (addItem pos itm s)) (getStringId (getID itm)) = None \<and>
         (\<exists>x s2. checkoutItem due (getStringId (getID itm)) who (snd (addItem pos itm s)) = (Inr x, s2) \<and>
                 checkinItem standin s2 = (Inr (), snd (addItem pos itm s)))"
proof -
  define k where "k = getStringId (getID itm)"
  define s1 where "s1 = s\<lparr>shelves := setSlot (shelves s) pos (Some (Item_copy itm))\<rparr>"
  have add: "addItem pos itm s = (Inr (), s1)"
    using valid empty by (simp add: addItem_ok s1_def)
  have occupied: "slot (shelves s1) pos \<noteq> None"
    by (simp add: s1_def slot_setSlot)
  have ledger1: "checkedOutItems s1 k = None"
    using fresh by (simp add: s1_def k_def)
  have "matchesId s1 k (getRow pos) (getCol pos)"
    by (simp add: matchesId_def s1_def setSlot_apply k_def Item_copy_def)
  with valid obtain i j x where
    hit: "shelves s1 i j = Some x" "getStringId (getID x) = k"
         "checkoutShelves due k who s1 0 = Some (checkoutAt due k who s1 i j x)"
    using shelves_some [of 0 "getRow pos" "getCol pos" s1 k due who]
    by (auto simp: isValid_def)
  define info where "info = \<lparr>checkedOutBy = who, dueDate = due,
    originalPosition = Position i j, item = Some x\<rparr>"
  define s2 where "s2 = s1\<lparr>shelves := setSlot (shelves s1) (Position i j) None,
    checkedOutItems := (checkedOutItems s1) (k \<mapsto> info)\<rparr>"
  have out: "checkoutItem due k who s1 = (Inr x, s2)"
    using hit ledger1
    by (simp add: checkoutItem_def checkoutAt_state emplace_def s2_def info_def)
  have "setSlot (setSlot (shelves s1) (Position i j) None) (Position i j) (Some x) = shelves s1"
    using setSlot_restore [of "shelves s1" "Position i j" None] hit(1) by simp
  moreover have "((checkedOutItems s1) (k \<mapsto> info)) (k := None) = checkedOutItems s1"
    using ledger1 by (simp add: fun_eq_iff)
  ultimately have ret: "checkinItem standin s2 = (Inr (), s1)"
    using ident by (simp add: checkinItem_def s2_def k_def info_def)
  from add occupied ledger1 out ret show ?thesis
    unfolding k_def by auto
qed

text \<open>
  Claim C6: for any item added at a valid empty position \<open>p\<close>, a successful checkout of
  its identity followed at once by a checkin with a stand-in of that identity leaves the
  item back at \<open>p\<close>, the slot occupied, the ledger entry gone, and the contents of the
  slot, subtype and all fields, identical to what was added.
  The code does not give the last part. A Book of identity 1 is added to a new inventory
  at \<open>(0, 0)\<close>, where it is the only item; the three calls succeed, the slot \<open>(0, 0)\<close> is
  occupied again and the ledger is empty, but the slot holds an object of class \<open>Item\<close>
  with the three base fields and not the Book that was added: title, author and copyright
  date are gone since \<open>addItem\<close>.
\<close>

theorem roundtrip_loses_subtype:
  "fst (addItem (Position 0 0) bookX newInventory) = Inr () \<and>
   fst (checkoutItem ''2025-06-04'' ''1'' ''Alice'' ow1) = Inr (Item ''Dune'' ''novel'' 1) \<and>
   fst (checkinItem standIn ow2) = Inr () \<and>
   fst (isCompartmentEmpty (Position 0 0) (snd (checkinItem standIn ow2))) = Inr False \<and>
   checkedOutItems (snd (checkinItem standIn ow2)) = Map.empty \<and>
   slot (shelves (snd (checkinItem standIn ow2))) (Position 0 0) = Some (Item ''Dune'' ''novel'' 1) \<and>
   slot (shelves (snd (checkinItem standIn ow2))) (Position 0 0) \<noteq> Some bookX"
proof -
  have a: "fst (addItem (Position 0 0) bookX newInventory) = Inr ()"
    by (simp add: addItem_ok isValid_def slot_def newInventory_def)
  have b: "fst (checkoutItem ''2025-06-04'' ''1'' ''Alice'' ow1) = Inr (Item ''Dune'' ''novel'' 1)"
    by (simp add: checkout_ow1)
  have c: "checkinItem standIn ow2 =
    (Inr (), \<lparr>shelves = setSlot (\<lambda>i j. None) (Position 0 0) (Some (Item ''Dune'' ''novel'' 1)),
              checkedOutItems = Map.empty\<rparr>)"
    by (simp add: checkinItem_def standIn_def getStringId_1 ow2_eval)
  have d: "fst (isCompartmentEmpty (Position 0 0) (snd (checkinItem standIn ow2))) = Inr False"
    by (simp add: c isCompartmentEmpty_def isValid_def slot_setSlot)
  have e: "slot (shelves (snd (checkinItem standIn ow2))) (Position 0 0) =
      Some (Item ''Dune'' ''novel'' 1)"
    by (simp add: c slot_setSlot)
  have f: "slot (shelves (snd (checkinItem standIn ow2))) (Position 0 0) \<noteq> Some bookX"
    by (simp add: e bookX_def)
  from a b c d e f show ?thesis by simp
qed

section \<open>The due date\<close>

text \<open>
  Claim C9: on every successful \<open>checkoutItem\<close> the due date stored in the new ledger
  record is the current date at the time of the call plus 30 calendar days, written as
  \<open>YYYY-MM-DD\<close>, with correct month and year rollover.
  The code does not always give this. It adds 30 to \<open>tm_mday\<close> but leaves \<open>tm_isdst\<close> as
  \<open>localtime\<close> set it for today. At 00:30 on 28 September 2025, in daylight saving time,
  the due day 28 October is in standard time: \<open>mktime\<close> takes 00:30 as a daylight-saving
  reading and returns the same instant in standard time, 23:30 on 27 October. The
  record says \<open>2025-10-27\<close>, 29 days ahead, where the date plus 30 calendar days is
  \<open>2025-10-28\<close>.
\<close>

theorem checkout_due_date_one_day_short:
  "zone_dst cet2025 halfPastMidnight \<and> tm_isdst halfPastMidnight = 1 \<and>
   fst (checkoutItemAt cet2025 halfPastMidnight ''1'' ''Alice'' ow1) =
     Inr (Item ''Dune'' ''novel'' 1) \<and>
   map_option dueDate
     (checkedOutItems (snd (checkoutItemAt cet2025 halfPastMidnight ''1'' ''Alice'' ow1)) ''1'') =
     Some ''2025-10-27'' \<and>
   formatYmd (calendarPlusDays 30 (1900 + tm_year halfPastMidnight, tm_mon halfPastMidnight,
     tm_mday halfPastMidnight)) = ''2025-10-28''"
proof -
  have a: "zone_dst cet2025 halfPastMidnight" "tm_isdst halfPastMidnight = 1"
    by (simp_all add: cet2025_def halfPastMidnight_def)
  have b: "checkoutItemAt cet2025 halfPastMidnight ''1'' ''Alice'' ow1 =
     (Inr (Item ''Dune'' ''novel'' 1),
      \<lparr>shelves = (\<lambda>i j. None),
       checkedOutItems = [''1'' \<mapsto> \<lparr>checkedOutBy = ''Alice'', dueDate = ''2025-10-27'',
          originalPosition = Position 0 0, item = Some (Item ''Dune'' ''novel'' 1)\<rparr>]\<rparr>)"
    by (simp add: checkoutItemAt_def generateDueDate_example checkout_ow1)
  have "calendarPlusDays 30 (1900 + tm_year halfPastMidnight, tm_mon halfPastMidnight,
     tm_mday halfPastMidnight) = (2025, 9, 28)"
    using calendarPlusDays_example by (simp add: halfPastMidnight_def)
  then have c: "formatYmd (calendarPlusDays 30 (1900 + tm_year halfPastMidnight,
     tm_mon halfPastMidnight, tm_mday halfPastMidnight)) = ''2025-10-28''"
    by (simp add: formatYmd_def pad2_def to_string_def nat_to_string.simps digit_char_def)
  from a b c show ?thesis by simp
qed

section \<open>No removal\<close>

text \<open>
  Claim C7: no successful operation removes an item from the system, also when an item
  is added at the original position of a checked-out item and that item is then checked in.
  The code does not keep this. In state \<open>ow3\<close> the slot \<open>(0, 0)\<close> holds the magazine of
  identity 2; the checkin of identity 1 succeeds and leaves a grid whose only item is the
  book and an empty ledger.
\<close>

theorem checkin_overwrites_added_item:
  "slot (shelves ow3) (Position 0 0) = Some (Item ''Wired'' ''monthly'' 2) \<and>
   checkinItem standIn ow3 =
     (Inr (), \<lparr>shelves = setSlot (\<lambda>i j. None) (Position 0 0) (Some (Item ''Dune'' ''novel'' 1)),
               checkedOutItems = Map.empty\<rparr>)"
  by (simp add: checkinItem_def standIn_def getStringId_1 ow3_eval setSlot_def fun_eq_iff slot_def)

section \<open>Swapping\<close>

text \<open>
  Claim C8: \<open>swapItems\<close> fails with \<open>InvalidPosition\<close> if either position is invalid and
  with \<open>EmptySlot\<close> if either slot is empty; on success the two slots have exchanged their
  contents, every other slot and the ledger are unchanged, and swapping a valid occupied
  slot with itself succeeds and changes nothing.
\<close>

theorem swapItems_spec:
  "(\<not> isValid pos1 \<or> \<not> isValid pos2 \<longrightarrow> swapItems pos1 pos2 s = (Inl InvalidPosition, s)) \<and>
   (isValid pos1 \<and> isValid pos2 \<and> (slot (shelves s) pos1 = None \<or> slot (shelves s) pos2 = None) \<longrightarrow>
      swapItems pos1 pos2 s = (Inl EmptySlot, s)) \<and>
   (isValid pos1 \<and> isValid pos2 \<and> slot (shelves s) pos1 \<noteq> None \<and> slot (shelves s) pos2 \<noteq> None \<longrightarrow>
      fst (swapItems pos1 pos2 s) = Inr () \<and>
      slot (shelves (snd (swapItems pos1 pos2 s))) pos1 = slot (shelves s) pos2 \<and>
      slot (shelves (snd (swapItems pos1 pos2 s))) pos2 = slot (shelves s) pos1 \<and>
      (\<forall>q. q \<noteq> pos1 \<and> q \<noteq> pos2 \<longrightarrow>
         slot (shelves (snd (swapItems pos1 pos2 s))) q = slot (shelves s) q) \<and>
      checkedOutItems (snd (swapItems pos1 pos2 s)) = checkedOutItems s \<and>
      (pos1 = pos2 \<longrightarrow> snd (swapItems pos1 pos2 s) = s))"
proof (intro conjI impI)
  assume "\<not> isValid pos1 \<or> \<not> isValid pos2"
  then show "swapItems pos1 pos2 s = (Inl InvalidPosition, s)"
    by (auto simp: swapItems_def)
next
  assume "isValid pos1 \<and> isValid pos2 \<and> (slot (shelves s) pos1 = None \<or> slot (shelves s) pos2 = None)"
  then show "swapItems pos1 pos2 s = (Inl EmptySlot, s)"
    by (auto simp: swapItems_def isCompartmentEmpty_def)
next
  assume a: "isValid pos1 \<and> isValid pos2 \<and> slot (shelves s) pos1 \<noteq> None \<and> slot (shelves s) pos2 \<noteq> None"
  then have r: "swapItems pos1 pos2 s =
    (Inr (), s\<lparr>shelves := setSlot (setSlot (shelves s) pos1 (slot (shelves s) pos2)) pos2
                             (slot (shelves s) pos1)\<rparr>)"
    by (simp add: swapItems_def isCompartmentEmpty_def Let_def)
  show "fst (swapItems pos1 pos2 s) = Inr ()" by (simp add: r)
  show "slot (shelves (snd (swapItems pos1 pos2 s))) pos1 = slot (shelves s) pos2"
    by (simp add: r slot_setSlot)
  show "slot (shelves (snd (swapItems pos1 pos2 s))) pos2 = slot (shelves s) pos1"
    by (simp add: r slot_setSlot)
  show "\<forall>q. q \<noteq> pos1 \<and> q \<noteq> pos2 \<longrightarrow>
         slot (shelves (snd (swapItems pos1 pos2 s))) q = slot (shelves s) q"
    by (simp add: r slot_setSlot)
  show "checkedOutItems (snd (swapItems pos1 pos2 s)) = checkedOutItems s"
    by (simp add: r)
  show "snd (swapItems pos1 pos2 s) = s" if "pos1 = pos2"
  proof -
    have "setSlot (setSlot (shelves s) pos1 (slot (shelves s) pos1)) pos1 (slot (shelves s) pos1)
            = shelves s"
      by (rule ext, rule ext) (simp add: setSlot_apply slot_def)
    with that r show ?thesis by simp
  qed
qed

text \<open>
  The statement at \<open>sw1\<close>, which holds two items.
\<close>

theorem swapItems_spec_witness:
  "swapItems (Position 0 0) (Position 3 0) sw1 = (Inl InvalidPosition, sw1) \<and>
   swapItems (Position 0 0) (Position 2 14) sw1 = (Inl EmptySlot, sw1) \<and>
   fst (swapItems (Position 0 0) (Position 0 1) sw1) = Inr () \<and>
   slot (shelves (snd (swapItems (Position 0 0) (Position 0 1) sw1))) (Position 0 0) =
     Some (Item ''Wired'' ''monthly'' 2) \<and>
   slot (shelves (snd (swapItems (Position 0 0) (Position 0 1) sw1))) (Position 0 1) =
     Some (Item ''Dune'' ''novel'' 1) \<and>
   slot (shelves (snd (swapItems (Position 0 0) (Position 0 1) sw1))) (Position 1 1) = None \<and>
   fst (swapItems (Position 0 1) (Position 0 1) sw1) = Inr () \<and>
   snd (swapItems (Position 0 1) (Position 0 1) sw1) = sw1"
proof -
  have v: "isValid (Position 0 0)" "isValid (Position 0 1)" "isValid (Position 2 14)"
    "\<not> isValid (Position 3 0)"
    by (simp_all add: isValid_def)
  have g: "slot (shelves sw1) (Position 0 0) = Some (Item ''Dune'' ''novel'' 1)"
    "slot (shelves sw1) (Position 0 1) = Some (Item ''Wired'' ''monthly'' 2)"
    "slot (shelves sw1) (Position 2 14) = None"
    "slot (shelves sw1) (Position 1 1) = None"
    by (simp_all add: sw1_eval slot_def setSlot_apply)
  from swapItems_spec [of "Position 0 0" "Position 3 0" sw1] v
  have 1: "swapItems (Position 0 0) (Position 3 0) sw1 = (Inl InvalidPosition, sw1)" by simp
  from swapItems_spec [of "Position 0 0" "Position 2 14" sw1] v g
  have 2: "swapItems (Position 0 0) (Position 2 14) sw1 = (Inl EmptySlot, sw1)" by simp
  from swapItems_spec [of "Position 0 0" "Position 0 1" sw1] v g
  have 3: "fst (swapItems (Position 0 0) (Position 0 1) sw1) = Inr () \<and>
   slot (shelves (snd (swapItems (Position 0 0) (Position 0 1) sw1))) (Position 0 0) =
     Some (Item ''Wired'' ''monthly'' 2) \<and>
   slot (shelves (snd (swapItems (Position 0 0) (Position 0 1) sw1))) (Position 0 1) =
     Some (Item ''Dune'' ''novel'' 1) \<and>
   slot (shelves (snd (swapItems (Position 0 0) (Position 0 1) sw1))) (Position 1 1) = None"
    by simp
  from swapItems_spec [of "Position 0 1" "Position 0 1" sw1] v g
  have 4: "fst (swapItems (Position 0 1) (Position 0 1) sw1) = Inr () \<and>
   snd (swapItems (Position 0 1) (Position 0 1) sw1) = sw1"
    by simp
  from 1 2 3 4 show ?thesis by blast
qed

section \<open>Identities are not checked\<close>

text \<open>
  Claim C10: \<open>addItem\<close> checks nothing about identities. At every valid empty position
  it succeeds, whatever the rest of the grid and the ledger hold, and stores an item with
  the identity of its argument; so an identity that is already in a slot or in the ledger
  can be added again.
\<close>

theorem addItem_no_uniqueness:
  "isValid pos \<Longrightarrow> slot (shelves s) pos = None \<Longrightarrow>
   addItem pos itm s = (Inr (), s\<lparr>shelves := setSlot (shelves s) pos (Some (Item_copy itm))\<rparr>) \<and>
   getID (Item_copy itm) = getID itm"
  by (simp add: addItem_def isCompartmentEmpty_def Item_copy_def)

text \<open>
  The statement at \<open>dup3\<close>, where identity 1 is both in the slot \<open>(0, 1)\<close> and in the
  ledger: a third item of identity 1 is accepted at \<open>(1, 0)\<close>.
\<close>

theorem addItem_no_uniqueness_witness:
  "isValid (Position 1 0) \<and> slot (shelves dup3) (Position 1 0) = None \<and>
   matchesId dup3 ''1'' 0 1 \<and> fst (isItemCheckedOut ''1'' dup3) \<and>
   getStringId (getID standIn) = ''1'' \<and>
   fst (addItem (Position 1 0) standIn dup3) = Inr () \<and>
   matchesId (snd (addItem (Position 1 0) standIn dup3)) ''1'' 0 1 \<and>
   matchesId (snd (addItem (Position 1 0) standIn dup3)) ''1'' 1 0 \<and>
   fst (isItemCheckedOut ''1'' (snd (addItem (Position 1 0) standIn dup3)))"
proof -
  have h1: "isValid (Position 1 0)" by (simp add: isValid_def)
  have h2: "slot (shelves dup3) (Position 1 0) = None"
    by (simp add: dup3_eval slot_def setSlot_apply)
  from addItem_no_uniqueness [OF h1 h2, of standIn] h1 h2 show ?thesis
    by (simp add: matchesId_def isItemCheckedOut_def dup3_eval setSlot_apply getStringId_1
        standIn_def Item_copy_def)
qed

end
